theory Spec2Isabelle
  imports Complex_Main
begin

section \<open>JavaScript numbers\<close>

text \<open>
  Every number of the library (a rectangle's coordinates, an opacity, a time stamp, a
  duration) is a JavaScript number, a double. A finite number is modelled by the real it
  denotes; the three special values of the arithmetic are kept, because the source
  divides (\<open>first.width / last.width\<close>, \<open>(now - start) / duration\<close>) without looking
  at the divisor.
\<close>

datatype jsnum = Fin real | PInf | NInf | NaN

text \<open>
  The result of an operation on finite numbers is the exact result rounded to a double
  (to nearest, ties to even). \<open>to_double\<close> keeps of the rounding what decides whether the
  result is zero, finite or infinite: the largest double is \<open>2^1024 - 2^971\<close>, so a
  magnitude of at least \<open>2^1024 - 2^970\<close> overflows to an infinity, and the smallest
  positive double is \<open>2^-1074\<close>, so a magnitude of at most \<open>2^-1075\<close> underflows to
  zero. Between the two the value is taken as the exact real: the rounding of the
  significand is not modelled, nor is the sign of a zero (zero is the positive zero).
\<close>

definition signed_inf :: "bool \<Rightarrow> jsnum" where
  "signed_inf neg = (if neg then NInf else PInf)"

definition overflow_threshold :: real where
  "overflow_threshold = 2 ^ 1024 - 2 ^ 970"

definition underflow_threshold :: real where
  "underflow_threshold = 1 / 2 ^ 1075"

definition to_double :: "real \<Rightarrow> jsnum" where
  "to_double r =
     (if overflow_threshold \<le> \<bar>r\<bar> then signed_inf (r < 0)
      else if \<bar>r\<bar> \<le> underflow_threshold then Fin 0
      else Fin r)"

fun jneg :: "jsnum \<Rightarrow> jsnum" where
  "jneg (Fin a) = Fin (- a)"
| "jneg PInf = NInf"
| "jneg NInf = PInf"
| "jneg NaN = NaN"

fun jadd :: "jsnum \<Rightarrow> jsnum \<Rightarrow> jsnum" where
  "jadd NaN _ = NaN"
| "jadd _ NaN = NaN"
| "jadd (Fin a) (Fin b) = to_double (a + b)"
| "jadd PInf NInf = NaN"
| "jadd NInf PInf = NaN"
| "jadd PInf _ = PInf"
| "jadd _ PInf = PInf"
| "jadd NInf _ = NInf"
| "jadd _ NInf = NInf"

definition jsub :: "jsnum \<Rightarrow> jsnum \<Rightarrow> jsnum" where
  "jsub a b = jadd a (jneg b)"

text \<open>The sign of a number that is not NaN: negative or not.\<close>

fun is_neg :: "jsnum \<Rightarrow> bool" where
  "is_neg (Fin a) = (a < 0)"
| "is_neg NInf = True"
| "is_neg _ = False"

fun jmul :: "jsnum \<Rightarrow> jsnum \<Rightarrow> jsnum" where
  "jmul NaN _ = NaN"
| "jmul _ NaN = NaN"
| "jmul (Fin a) (Fin b) = to_double (a * b)"
| "jmul a b = (if a = Fin 0 \<or> b = Fin 0 then NaN else signed_inf (is_neg a \<noteq> is_neg b))"

fun jdiv :: "jsnum \<Rightarrow> jsnum \<Rightarrow> jsnum" where
  "jdiv NaN _ = NaN"
| "jdiv _ NaN = NaN"
| "jdiv (Fin a) (Fin b) =
     (if b = 0 then (if a = 0 then NaN else signed_inf (a < 0)) else to_double (a / b))"
| "jdiv (Fin a) _ = Fin 0"
| "jdiv a (Fin b) = signed_inf (is_neg a \<noteq> (b < 0))"
| "jdiv _ _ = NaN"

text \<open>\<open>a < b\<close> of JavaScript: false as soon as one side is NaN.\<close>

fun jlt :: "jsnum \<Rightarrow> jsnum \<Rightarrow> bool" where
  "jlt NaN _ = False"
| "jlt _ NaN = False"
| "jlt (Fin a) (Fin b) = (a < b)"
| "jlt _ NInf = False"
| "jlt NInf _ = True"
| "jlt PInf _ = False"
| "jlt _ PInf = True"

text \<open>\<open>Math.max\<close> and \<open>Math.min\<close> of two arguments: NaN as soon as one is NaN.\<close>

definition Math_max :: "jsnum \<Rightarrow> jsnum \<Rightarrow> jsnum" where
  "Math_max a b = (if a = NaN \<or> b = NaN then NaN else if jlt a b then b else a)"

definition Math_min :: "jsnum \<Rightarrow> jsnum \<Rightarrow> jsnum" where
  "Math_min a b = (if a = NaN \<or> b = NaN then NaN else if jlt b a then b else a)"

text \<open>Truthiness of a number, as \<open>||\<close> reads it: zero and NaN are falsy.\<close>

fun truthy :: "jsnum \<Rightarrow> bool" where
  "truthy (Fin a) = (a \<noteq> 0)"
| "truthy NaN = False"
| "truthy _ = True"

text \<open>
  A strictly positive finite number; a number that is neither NaN nor negative; a number
  of the unit interval.
\<close>

fun positive_finite :: "jsnum \<Rightarrow> bool" where
  "positive_finite (Fin a) = (0 < a)"
| "positive_finite _ = False"

fun not_negative :: "jsnum \<Rightarrow> bool" where
  "not_negative (Fin a) = (0 \<le> a)"
| "not_negative PInf = True"
| "not_negative _ = False"

fun in_unit_interval :: "jsnum \<Rightarrow> bool" where
  "in_unit_interval (Fin a) = (0 \<le> a \<and> a \<le> 1)"
| "in_unit_interval _ = False"

section \<open>Values, errors and outcomes\<close>

text \<open>
  The values a caller can pass where the source inspects the type at run time (the easing
  of a configuration, the argument of \<open>addClass\<close>). A function is a map on numbers; an
  object is reduced to the one property the source reads from it, \<open>getRatio\<close>
  (\<open>JUndefined\<close> when the object has none).
\<close>

datatype jsval =
    JUndefined
  | JNull
  | JNumber jsnum
  | JString string
  | JArray "jsval list"
  | JFunction "jsnum \<Rightarrow> jsnum"
  | JObject jsval

fun typeof :: "jsval \<Rightarrow> string" where
  "typeof JUndefined = ''undefined''"
| "typeof JNull = ''object''"
| "typeof (JNumber _) = ''number''"
| "typeof (JString _) = ''string''"
| "typeof (JArray _) = ''object''"
| "typeof (JFunction _) = ''function''"
| "typeof (JObject _) = ''object''"

text \<open>
  What the source throws: \<open>new Error(message)\<close>; the two errors the language raises
  itself, a TypeError (a property read from or written to \<open>undefined\<close> or \<open>null\<close>, a
  call of a value that is no function) and a ReferenceError (an identifier that is not
  declared); and the DOMException, given by its name, with which the host's class list
  refuses a token.
\<close>

datatype error = Error string | TypeError | ReferenceError string | DOMException string

text \<open>
  A method either returns, leaving a state, or throws, leaving the state of the moment of
  the throw: what had been written before stays written.
\<close>

datatype 's outcome = Done 's | Thrown error 's

section \<open>The document\<close>

record rect =
  r_left :: jsnum
  r_top :: jsnum
  r_width :: jsnum
  r_height :: jsnum

text \<open>
  The transform the library writes is always \<open>translate(x px, y px) scale(sx, sy)\<close>;
  it is kept by its four numbers. An inline style property holds the last value the
  program wrote to it, \<open>None\<close> once \<open>null\<close> was written.
\<close>

datatype css_transform = TranslateScale jsnum jsnum jsnum jsnum

record css_style =
  style_transformOrigin :: "string option"
  style_transform :: "css_transform option"
  style_opacity :: "jsnum option"
  style_willChange :: "string option"

record element =
  classList :: "string list"
  style :: css_style

record custom_event =
  ev_type :: string
  ev_detail :: jsval
  ev_bubbles :: bool
  ev_cancelable :: bool

text \<open>
  The functions a strategy object contributes: those of the frame-loop strategy and of
  the tween-engine strategy of this repository. The CSS-transition strategy and functions
  of a caller's own are outside this development.
\<close>

datatype player_fn = Raf_play | Raf_update | Gsap_play

record tween_options =
  tw_ease :: jsval
  tw_scaleX :: "jsnum option"
  tw_scaleY :: "jsnum option"
  tw_x :: "jsnum option"
  tw_y :: "jsnum option"
  tw_opacity :: "jsnum option"

text \<open>The calls the library makes to its host, in the order it makes them.\<close>

datatype event =
    ClassListAdd nat string
  | ClassListRemove nat string
  | GetBoundingClientRect nat
  | GetComputedStyle nat
  | DispatchEvent nat custom_event
  | RequestAnimationFrame "player_fn option"
  | NewTween string nat jsnum tween_options
  | TweenStartTime jsnum

text \<open>
  Elements are addressed by a number, so that two helpers may hold the same element.
  \<open>trace\<close> is the sequence of host calls made so far.
\<close>

record world =
  elements :: "nat \<Rightarrow> element"
  trace :: "event list"

text \<open>
  The host: the layout engine answers \<open>getBoundingClientRect\<close> and the computed opacity
  from the state of the whole document, and \<open>globals\<close> lists the global identifiers that
  are declared.
\<close>

record env =
  boundingClientRect :: "(nat \<Rightarrow> element) \<Rightarrow> nat \<Rightarrow> rect"
  computedOpacity :: "(nat \<Rightarrow> element) \<Rightarrow> nat \<Rightarrow> jsnum"
  globals :: "string list"

definition emit :: "event \<Rightarrow> world \<Rightarrow> world" where
  "emit e w = w\<lparr>trace := trace w @ [e]\<rparr>"

definition update_style :: "nat \<Rightarrow> (css_style \<Rightarrow> css_style) \<Rightarrow> world \<Rightarrow> world" where
  "update_style el g w =
     w\<lparr>elements := (elements w)(el := (elements w el)\<lparr>style := g (style (elements w el))\<rparr>)\<rparr>"

text \<open>
  \<open>classList.add\<close> and \<open>classList.remove\<close> of the host. The class list is an
  ordered set of tokens. Both methods first check the token: the empty string is refused
  with a SyntaxError, a token that contains ASCII white space (tab, line feed, form feed,
  carriage return, space) with an InvalidCharacterError; the class list is then
  unchanged. The call is part of the trace either way.
\<close>

definition ascii_whitespace :: "char list" where
  "ascii_whitespace = [CHR 0x09, CHR 0x0A, CHR 0x0C, CHR 0x0D, CHR '' '']"

definition validate_token :: "string \<Rightarrow> error option" where
  "validate_token c =
     (if c = [] then Some (DOMException ''SyntaxError'')
      else if (\<exists>ch \<in> set c. ch \<in> set ascii_whitespace)
      then Some (DOMException ''InvalidCharacterError'')
      else None)"

definition classList_add :: "nat \<Rightarrow> string \<Rightarrow> world \<Rightarrow> world outcome" where
  "classList_add el c w =
     (let w1 = emit (ClassListAdd el c) w
      in case validate_token c of
           Some e \<Rightarrow> Thrown e w1
         | None \<Rightarrow>
             Done (w1\<lparr>elements := (elements w1)(el := (elements w1 el)
                     \<lparr>classList := (if c \<in> set (classList (elements w1 el))
                                    then classList (elements w1 el)
                                    else classList (elements w1 el) @ [c])\<rparr>)\<rparr>))"

definition classList_remove :: "nat \<Rightarrow> string \<Rightarrow> world \<Rightarrow> world outcome" where
  "classList_remove el c w =
     (let w1 = emit (ClassListRemove el c) w
      in case validate_token c of
           Some e \<Rightarrow> Thrown e w1
         | None \<Rightarrow>
             Done (w1\<lparr>elements := (elements w1)(el := (elements w1 el)
                     \<lparr>classList := removeAll c (classList (elements w1 el))\<rparr>)\<rparr>))"

section \<open>The helper\<close>

record snap =
  layout :: "rect option"
  opacity :: jsnum

record invert_delta =
  inv_x :: jsnum
  inv_y :: jsnum
  inv_sx :: jsnum
  inv_sy :: jsnum
  inv_a :: jsnum

type_synonym player = "string \<rightharpoonup> player_fn"

text \<open>
  The fields of a helper, \<open>flip_x\<close> for the source's \<open>this.x_\<close>.
  \<open>this.invert_\<close> is an object the constructor creates; \<open>play\<close> compares it with
  \<open>null\<close>, so the field is optional here. \<open>flip_bound\<close> holds the functions of the
  strategy that the constructor copies onto the helper, by name (\<open>this.play_\<close>,
  \<open>this.update_\<close>).
\<close>

record flip =
  flip_element :: nat
  flip_first :: snap
  flip_last :: snap
  flip_invert :: "invert_delta option"
  flip_start :: jsnum
  flip_duration :: jsnum
  flip_delay :: jsnum
  flip_easing :: jsval
  flip_updateTransform :: bool
  flip_updateOpacity :: bool
  flip_bound :: player

text \<open>\<open>willChange.join(',')\<close>.\<close>

fun join_comma :: "string list \<Rightarrow> string" where
  "join_comma [] = []"
| "join_comma [s] = s"
| "join_comma (s # t # ss) = s @ '','' @ join_comma (t # ss)"

definition invert :: "flip \<Rightarrow> world \<Rightarrow> (flip \<times> world) outcome" where
  "invert f w =
     (case layout (flip_first f) of
        None \<Rightarrow> Thrown (Error ''You must call first() before invert()'') (f, w)
      | Some fl \<Rightarrow>
     (case layout (flip_last f) of
        None \<Rightarrow> Thrown (Error ''You must call last() before invert()'') (f, w)
      | Some ll \<Rightarrow>
     (case flip_invert f of
        None \<Rightarrow> Thrown TypeError (f, w)
      | Some _ \<Rightarrow>
          let iv = \<lparr>inv_x = jsub (r_left fl) (r_left ll),
                    inv_y = jsub (r_top fl) (r_top ll),
                    inv_sx = jdiv (r_width fl) (r_width ll),
                    inv_sy = jdiv (r_height fl) (r_height ll),
                    inv_a = jsub (opacity (flip_last f)) (opacity (flip_first f))\<rparr>;
              f' = f\<lparr>flip_invert := Some iv\<rparr>;
              w1 = (if flip_updateTransform f
                    then update_style (flip_element f)
                           (\<lambda>s. s\<lparr>style_transformOrigin := Some ''0 0'',
                                  style_transform := Some (TranslateScale (inv_x iv) (inv_y iv)
                                                             (inv_sx iv) (inv_sy iv))\<rparr>) w
                    else w);
              willChange1 = (if flip_updateTransform f then [''transform''] else []);
              w2 = (if flip_updateOpacity f
                    then update_style (flip_element f)
                           (\<lambda>s. s\<lparr>style_opacity := Some (opacity (flip_first f))\<rparr>) w1
                    else w1);
              willChange2 = (if flip_updateOpacity f then willChange1 @ [''opacity''] else willChange1)
          in Done (f', update_style (flip_element f)
                         (\<lambda>s. s\<lparr>style_willChange := Some (join_comma willChange2)\<rparr>) w2))))"

text \<open>\<open>first()\<close> and \<open>last(lastClassName)\<close>: measure the element and keep the snapshot.\<close>

definition first :: "env \<Rightarrow> flip \<Rightarrow> world \<Rightarrow> flip \<times> world" where
  "first E f w =
     (let w1 = emit (GetBoundingClientRect (flip_element f)) w;
          r = boundingClientRect E (elements w1) (flip_element f);
          w2 = emit (GetComputedStyle (flip_element f)) w1;
          a = computedOpacity E (elements w2) (flip_element f)
      in (f\<lparr>flip_first := \<lparr>layout = Some r, opacity = a\<rparr>\<rparr>, w2))"

definition addClass :: "jsval \<Rightarrow> flip \<Rightarrow> world \<Rightarrow> world outcome" where
  "addClass className f w =
     (if typeof className \<noteq> ''string'' then Done w
      else (case className of
              JString c \<Rightarrow> classList_add (flip_element f) c w
            | _ \<Rightarrow> Done w))"

definition removeClass :: "jsval \<Rightarrow> flip \<Rightarrow> world \<Rightarrow> world outcome" where
  "removeClass className f w =
     (if typeof className \<noteq> ''string'' then Done w
      else (case className of
              JString c \<Rightarrow> classList_remove (flip_element f) c w
            | _ \<Rightarrow> Done w))"

definition last' :: "env \<Rightarrow> jsval \<Rightarrow> flip \<Rightarrow> world \<Rightarrow> (flip \<times> world) outcome" where
  "last' E lastClassName f w =
     (case (if typeof lastClassName \<noteq> ''undefined'' then addClass lastClassName f w
            else Done w) of
        Thrown e w0 \<Rightarrow> Thrown e (f, w0)
      | Done w0 \<Rightarrow>
          (let w1 = emit (GetBoundingClientRect (flip_element f)) w0;
               r = boundingClientRect E (elements w1) (flip_element f);
               w2 = emit (GetComputedStyle (flip_element f)) w1;
               a = computedOpacity E (elements w2) (flip_element f)
           in Done (f\<lparr>flip_last := \<lparr>layout = Some r, opacity = a\<rparr>\<rparr>, w2)))"

text \<open>\<open>fire_\<close>, \<open>clamp_\<close> and the completion routine.\<close>

definition fire :: "string \<Rightarrow> jsval \<Rightarrow> bool \<Rightarrow> bool \<Rightarrow> flip \<Rightarrow> world \<Rightarrow> world" where
  "fire eventName detail bubbles cancelable f w =
     emit (DispatchEvent (flip_element f)
             \<lparr>ev_type = eventName, ev_detail = detail, ev_bubbles = bubbles,
              ev_cancelable = cancelable\<rparr>) w"

definition clamp :: "jsnum \<Rightarrow> jsnum \<Rightarrow> jsnum \<Rightarrow> jsnum" where
  "clamp v lo hi = Math_min hi (Math_max lo v)"

definition removeTransformsAndOpacity :: "flip \<Rightarrow> world \<Rightarrow> world" where
  "removeTransformsAndOpacity f w =
     update_style (flip_element f)
       (\<lambda>s. s\<lparr>style_transformOrigin := None, style_transform := None,
              style_opacity := None, style_willChange := None\<rparr>) w"

definition resetFirstLastAndInvertValues :: "flip \<Rightarrow> flip outcome" where
  "resetFirstLastAndInvertValues f =
     (let f1 = f\<lparr>flip_first := \<lparr>layout = None, opacity = Fin 0\<rparr>,
                 flip_last := \<lparr>layout = None, opacity = Fin 0\<rparr>\<rparr>
      in case flip_invert f1 of
           None \<Rightarrow> Thrown TypeError f1
         | Some _ \<Rightarrow>
             Done (f1\<lparr>flip_invert := Some \<lparr>inv_x = Fin 0, inv_y = Fin 0, inv_sx = Fin 1,
                                          inv_sy = Fin 1, inv_a = Fin 0\<rparr>\<rparr>))"

definition cleanUpAndFireEvent :: "flip \<Rightarrow> world \<Rightarrow> (flip \<times> world) outcome" where
  "cleanUpAndFireEvent f w =
     (let w1 = removeTransformsAndOpacity f w
      in case resetFirstLastAndInvertValues f of
           Thrown e f' \<Rightarrow> Thrown e (f', w1)
         | Done f' \<Rightarrow> Done (f', fire ''flipComplete'' JNull True True f' w1))"

section \<open>The playback strategies\<close>

text \<open>
  The frame-loop strategy. \<open>now\<close> is what \<open>window.performance.now()\<close> answers during
  the call; \<open>startTime\<close> is \<open>None\<close> when the argument is \<open>undefined\<close>. A requested
  frame is a host call: the next frame is another call of \<open>raf_update\<close>.
\<close>

definition raf_play :: "jsnum \<Rightarrow> jsnum option \<Rightarrow> flip \<Rightarrow> world \<Rightarrow> (flip \<times> world) outcome" where
  "raf_play now startTime f w =
     (let f' = (case startTime of
                  None \<Rightarrow> f\<lparr>flip_start := jadd now (flip_delay f)\<rparr>
                | Some t \<Rightarrow> f\<lparr>flip_start := jadd t (flip_delay f)\<rparr>)
      in Done (f', emit (RequestAnimationFrame (flip_bound f' ''update_'')) w))"

text \<open>
  The first two statements of \<open>update_\<close>: the normalized time of the frame, clamped.
\<close>

definition raf_time :: "jsnum \<Rightarrow> flip \<Rightarrow> jsnum" where
  "raf_time now f =
     (let time = jdiv (jsub now (flip_start f)) (flip_duration f)
      in clamp time (Fin 0) (Fin 1))"

definition raf_update :: "jsnum \<Rightarrow> flip \<Rightarrow> world \<Rightarrow> (flip \<times> world) outcome" where
  "raf_update now f w =
     (let time = raf_time now f
      in case flip_easing f of
           JFunction easing \<Rightarrow>
             (let remappedTime = easing time
              in case flip_invert f of
                   None \<Rightarrow> Thrown TypeError (f, w)
                 | Some iv \<Rightarrow>
                     (let ux = jmul (inv_x iv) (jsub (Fin 1) remappedTime);
                          uy = jmul (inv_y iv) (jsub (Fin 1) remappedTime);
                          usx = jadd (inv_sx iv) (jmul (jsub (Fin 1) (inv_sx iv)) remappedTime);
                          usy = jadd (inv_sy iv) (jmul (jsub (Fin 1) (inv_sy iv)) remappedTime);
                          ua = jadd (opacity (flip_first f)) (jmul (inv_a iv) remappedTime);
                          w1 = (if flip_updateTransform f
                                then update_style (flip_element f)
                                       (\<lambda>s. s\<lparr>style_transform :=
                                                Some (TranslateScale ux uy usx usy)\<rparr>) w
                                else w);
                          w2 = (if flip_updateOpacity f
                                then update_style (flip_element f)
                                       (\<lambda>s. s\<lparr>style_opacity := Some ua\<rparr>) w1
                                else w1)
                      in if jlt time (Fin 1)
                         then Done (f, emit (RequestAnimationFrame (flip_bound f ''update_'')) w2)
                         else cleanUpAndFireEvent f w2))
         | _ \<Rightarrow> Thrown TypeError (f, w))"

text \<open>
  The strategy that hands the animation to an external tween engine. Reading a global
  identifier that is not declared throws a ReferenceError; \<open>typeof\<close> is applied by the
  source to the two string literals \<open>'TweenLite'\<close> and \<open>'TweenMax'\<close>.
\<close>

definition global :: "env \<Rightarrow> string \<Rightarrow> error + string" where
  "global E name = (if name \<in> set (globals E) then Inr name else Inl (ReferenceError name))"

definition gsap_play :: "env \<Rightarrow> jsnum \<Rightarrow> jsnum option \<Rightarrow> flip \<Rightarrow> world \<Rightarrow> (flip \<times> world) outcome" where
  "gsap_play E now startTime f w =
     (let start = jdiv (case startTime of
                          None \<Rightarrow> now
                        | Some t \<Rightarrow> if truthy t then t else now) (Fin 1000);
          tweenLiteAvailable = (typeof (JString ''TweenLite'') \<noteq> ''undefined'');
          tweenMaxAvailable = (typeof (JString ''TweenMax'') \<noteq> ''undefined'')
      in case (if tweenMaxAvailable then global E ''TweenMax''
               else if tweenLiteAvailable then global E ''TweenLite''
               else Inl (Error ''GSAP requested, but TweenMax/Lite not available.'')) of
           Inl e \<Rightarrow> Thrown e (f, w)
         | Inr tween \<Rightarrow>
             (let options =
                    \<lparr>tw_ease = flip_easing f,
                     tw_scaleX = (if flip_updateTransform f then Some (Fin 1) else None),
                     tw_scaleY = (if flip_updateTransform f then Some (Fin 1) else None),
                     tw_x = (if flip_updateTransform f then Some (Fin 0) else None),
                     tw_y = (if flip_updateTransform f then Some (Fin 0) else None),
                     tw_opacity = (if flip_updateOpacity f then Some (opacity (flip_last f))
                                   else None)\<rparr>;
                  w1 = emit (NewTween tween (flip_element f)
                               (jdiv (flip_duration f) (Fin 1000)) options) w
              in Done (f, emit (TweenStartTime (jadd start (jdiv (flip_delay f) (Fin 1000)))) w1)))"

text \<open>\<open>play(startTime)\<close>: the two guards, then the call of the bound \<open>play_\<close>.\<close>

definition call_bound ::
  "env \<Rightarrow> jsnum \<Rightarrow> player_fn \<Rightarrow> jsnum option \<Rightarrow> flip \<Rightarrow> world \<Rightarrow> (flip \<times> world) outcome" where
  "call_bound E now fn startTime f w =
     (case fn of
        Raf_play \<Rightarrow> raf_play now startTime f w
      | Raf_update \<Rightarrow> raf_update now f w
      | Gsap_play \<Rightarrow> gsap_play E now startTime f w)"

definition play :: "env \<Rightarrow> jsnum \<Rightarrow> jsnum option \<Rightarrow> flip \<Rightarrow> world \<Rightarrow> (flip \<times> world) outcome" where
  "play E now startTime f w =
     (if flip_invert f = None
      then Thrown (Error ''invert() must be called before play()'') (f, w)
      else case flip_bound f ''play_'' of
             None \<Rightarrow> Thrown (Error ''No player specified.'') (f, w)
           | Some fn \<Rightarrow> call_bound E now fn startTime f w)"

section \<open>The player registry and the constructor\<close>

text \<open>
  The static side of the class: \<open>FLIP.players_\<close>, \<open>undefined\<close> (\<open>None\<close>) until the
  first registration, and the warnings written to the console. A strategy is an object of
  functions, read by name. \<open>players\<close> holds the registry's own keys.
\<close>

record flip_static =
  players :: "(string \<rightharpoonup> player) option"
  console :: "string list"

text \<open>
  The argument of the constructor: a key that is absent is \<open>None\<close>. \<open>Object.assign\<close>
  lets every key that is present replace the default. The element is an \<open>HTMLElement\<close>,
  as the constructor's documentation types it, or absent; \<open>null\<close>, which the \<open>typeof\<close>
  test of the constructor lets through, is not a value of this model.
\<close>

record options =
  opt_element :: "nat option"
  opt_duration :: "jsnum option"
  opt_delay :: "jsnum option"
  opt_easing :: "jsval option"
  opt_transform :: "bool option"
  opt_opacity :: "bool option"
  opt_play :: "string option"

record config =
  cfg_element :: "nat option"
  cfg_duration :: jsnum
  cfg_delay :: jsnum
  cfg_easing :: jsval
  cfg_transform :: bool
  cfg_opacity :: bool
  cfg_play :: string

text \<open>
  \<open>FLIP.players_[name]\<close>. The registry is a plain object, so a name that is not a key
  of its own is looked up in \<open>Object.prototype\<close>: the names below are found there, as a
  function (as an object for \<open>__proto__\<close>), a value that is not \<open>undefined\<close> and has no
  enumerable key of its own. A registration under the name \<open>__proto__\<close> is kept as an
  entry like any other (the code replaces the registry's prototype by the strategy, and
  the lookup of \<open>__proto__\<close> gives the strategy either way); the names the registry
  would then inherit from that strategy are not modelled.
\<close>

definition Object_prototype_names :: "string list" where
  "Object_prototype_names =
     [''constructor'', ''hasOwnProperty'', ''isPrototypeOf'', ''propertyIsEnumerable'',
      ''toLocaleString'', ''toString'', ''valueOf'', ''__proto__'', ''__defineGetter__'',
      ''__defineSetter__'', ''__lookupGetter__'', ''__lookupSetter__'']"

definition registry_get :: "(string \<rightharpoonup> player) \<Rightarrow> string \<Rightarrow> player option" where
  "registry_get ps name =
     (case ps name of
        Some p \<Rightarrow> Some p
      | None \<Rightarrow> if name \<in> set Object_prototype_names then Some Map.empty else None)"

definition extend :: "string \<Rightarrow> player \<Rightarrow> flip_static \<Rightarrow> flip_static" where
  "extend name player S =
     (let ps = (case players S of None \<Rightarrow> Map.empty | Some m \<Rightarrow> m);
          warn1 = (if registry_get ps name \<noteq> None
                   then [''Player with name '' @ name @ '' already exists''] else []);
          warn2 = (if player ''play_'' = None
                   then [''Player does not contain a play_() function''] else [])
      in \<lparr>players = Some (ps(name \<mapsto> player)), console = console S @ warn1 @ warn2\<rparr>)"

definition defaults :: config where
  "defaults =
     \<lparr>cfg_element = None, cfg_duration = Fin 330, cfg_delay = Fin 0,
      cfg_easing = JFunction (\<lambda>t. t), cfg_transform = True, cfg_opacity = True,
      cfg_play = ''rAF''\<rparr>"

definition Object_assign :: "config \<Rightarrow> options \<Rightarrow> config" where
  "Object_assign d opts =
     \<lparr>cfg_element = (case opt_element opts of None \<Rightarrow> cfg_element d | Some e \<Rightarrow> Some e),
      cfg_duration = (case opt_duration opts of None \<Rightarrow> cfg_duration d | Some v \<Rightarrow> v),
      cfg_delay = (case opt_delay opts of None \<Rightarrow> cfg_delay d | Some v \<Rightarrow> v),
      cfg_easing = (case opt_easing opts of None \<Rightarrow> cfg_easing d | Some v \<Rightarrow> v),
      cfg_transform = (case opt_transform opts of None \<Rightarrow> cfg_transform d | Some v \<Rightarrow> v),
      cfg_opacity = (case opt_opacity opts of None \<Rightarrow> cfg_opacity d | Some v \<Rightarrow> v),
      cfg_play = (case opt_play opts of None \<Rightarrow> cfg_play d | Some v \<Rightarrow> v)\<rparr>"

text \<open>
  Reading \<open>.getRatio\<close>: a TypeError on \<open>undefined\<close> and \<open>null\<close>, the property of an
  object, \<open>undefined\<close> on every other value.
\<close>

fun getRatio :: "jsval \<Rightarrow> error + jsval" where
  "getRatio JUndefined = Inl TypeError"
| "getRatio JNull = Inl TypeError"
| "getRatio (JObject g) = Inr g"
| "getRatio _ = Inr JUndefined"

definition resolve_easing :: "jsval \<Rightarrow> error + jsval" where
  "resolve_easing easing =
     (if typeof easing \<noteq> ''function''
      then (case getRatio easing of
              Inl e \<Rightarrow> Inl e
            | Inr g \<Rightarrow> if typeof g \<noteq> ''undefined'' then Inr g
                       else Inl (Error ''Easing function must be provided.''))
      else Inr easing)"

definition constructor :: "flip_static \<Rightarrow> options \<Rightarrow> error + flip" where
  "constructor S opts =
     (let config = Object_assign defaults opts
      in case cfg_element config of
           None \<Rightarrow> Inl (Error ''Element must be provided.'')
         | Some el \<Rightarrow>
        (case resolve_easing (cfg_easing config) of
           Inl e \<Rightarrow> Inl e
         | Inr easing \<Rightarrow>
        (case players S of
           None \<Rightarrow> Inl TypeError
         | Some ps \<Rightarrow>
        (case registry_get ps (cfg_play config) of
           None \<Rightarrow> Inl (Error (''Unknown player type: '' @ cfg_play config))
         | Some player \<Rightarrow>
             Inr \<lparr>flip_element = el,
                  flip_first = \<lparr>layout = None, opacity = Fin 0\<rparr>,
                  flip_last = \<lparr>layout = None, opacity = Fin 0\<rparr>,
                  flip_invert = Some \<lparr>inv_x = Fin 0, inv_y = Fin 0, inv_sx = Fin 1,
                                      inv_sy = Fin 1, inv_a = Fin 0\<rparr>,
                  flip_start = Fin 0,
                  flip_duration = cfg_duration config,
                  flip_delay = cfg_delay config,
                  flip_easing = easing,
                  flip_updateTransform = cfg_transform config,
                  flip_updateOpacity = cfg_opacity config,
                  flip_bound = player\<rparr>))))"

text \<open>
  The operations on the registry: a registration writes it, a construction reads it.
  \<open>registry_run\<close> applies a sequence of them to the static state.
\<close>

datatype registry_op = Extend string player | Construct options

fun registry_step :: "registry_op \<Rightarrow> flip_static \<Rightarrow> flip_static" where
  "registry_step (Extend name player) S = extend name player S"
| "registry_step (Construct opts) S = (case constructor S opts of Inl _ \<Rightarrow> S | Inr _ \<Rightarrow> S)"

fun registry_run :: "registry_op list \<Rightarrow> flip_static \<Rightarrow> flip_static" where
  "registry_run [] S = S"
| "registry_run (x # xs) S = registry_run xs (registry_step x S)"

text \<open>The strategy registered under a name: the registry's own key.\<close>

definition lookup_player :: "flip_static \<Rightarrow> string \<Rightarrow> player option" where
  "lookup_player S name = (case players S of None \<Rightarrow> None | Some ps \<Rightarrow> ps name)"

section \<open>Groups\<close>



fun construct_all :: "flip_static \<Rightarrow> options list \<Rightarrow> error + flip list" where
  "construct_all S [] = Inr []"
| "construct_all S (x # xs) =
     (case constructor S x of
        Inl e \<Rightarrow> Inl e
      | Inr f \<Rightarrow> (case construct_all S xs of Inl e \<Rightarrow> Inl e | Inr fs \<Rightarrow> Inr (f # fs)))"

definition group :: "flip_static \<Rightarrow> options list option \<Rightarrow> error + flip list" where
  "group S flips =
     (case flips of
        None \<Rightarrow> Inl (Error ''group() expects an array of objects.'')
      | Some xs \<Rightarrow> construct_all S xs)"




section \<open>Notions of the specification\<close>

text \<open>
  What the statements below compare the code with: the state a method returns with or
  leaves when it throws, the kinds of easing value, the configuration after the defaults,
  the latest registration of a name in a sequence of registry operations, and a snapshot
  measured on a given document.
\<close>

fun returned :: "'s outcome \<Rightarrow> 's option" where
  "returned (Done s) = Some s"
| "returned (Thrown e s) = None"

fun state_of :: "'s outcome \<Rightarrow> 's" where
  "state_of (Done s) = s"
| "state_of (Thrown e s) = s"

fun is_function :: "jsval \<Rightarrow> bool" where
  "is_function (JFunction _) = True"
| "is_function _ = False"

fun has_getRatio_function :: "jsval \<Rightarrow> bool" where
  "has_getRatio_function (JObject (JFunction _)) = True"
| "has_getRatio_function _ = False"

fun getRatio_defined :: "jsval \<Rightarrow> bool" where
  "getRatio_defined (JObject g) = (g \<noteq> JUndefined)"
| "getRatio_defined _ = False"

definition configured_easing :: "options \<Rightarrow> jsval" where
  "configured_easing opts = cfg_easing (Object_assign defaults opts)"

definition configured_play :: "options \<Rightarrow> string" where
  "configured_play opts = cfg_play (Object_assign defaults opts)"

fun last_registration :: "string \<Rightarrow> registry_op list \<Rightarrow> player option" where
  "last_registration name [] = None"
| "last_registration name (Extend n p # xs) =
     (case last_registration name xs of
        Some q \<Rightarrow> Some q
      | None \<Rightarrow> if n = name then Some p else None)"
| "last_registration name (Construct opts # xs) = last_registration name xs"







section \<open>Sample inputs\<close>

text \<open>
  A document without classes or inline styles; the two strategy objects as their source
  files export them, registered under the names the constructor's default and the README
  use; a configuration that gives the element only, and the helper it constructs.
\<close>

definition blank_style :: css_style where
  "blank_style = \<lparr>style_transformOrigin = None, style_transform = None,
                   style_opacity = None, style_willChange = None\<rparr>"

definition blank_world :: world where
  "blank_world = \<lparr>elements = (\<lambda>_. \<lparr>classList = [], style = blank_style\<rparr>), trace = []\<rparr>"

definition raf_player :: player where
  "raf_player = [''play_'' \<mapsto> Raf_play, ''update_'' \<mapsto> Raf_update]"

definition gsap_player :: player where
  "gsap_player = [''play_'' \<mapsto> Gsap_play]"

definition no_registry :: flip_static where
  "no_registry = \<lparr>players = None, console = []\<rparr>"

definition bundled :: flip_static where
  "bundled = extend ''GSAP'' gsap_player (extend ''rAF'' raf_player no_registry)"

definition only_element :: "nat \<Rightarrow> options" where
  "only_element el =
     \<lparr>opt_element = Some el, opt_duration = None, opt_delay = None, opt_easing = None,
      opt_transform = None, opt_opacity = None, opt_play = None\<rparr>"

definition fresh_flip :: flip where
  "fresh_flip =
     \<lparr>flip_element = 0,
      flip_first = \<lparr>layout = None, opacity = Fin 0\<rparr>,
      flip_last = \<lparr>layout = None, opacity = Fin 0\<rparr>,
      flip_invert = Some \<lparr>inv_x = Fin 0, inv_y = Fin 0, inv_sx = Fin 1, inv_sy = Fin 1,
                          inv_a = Fin 0\<rparr>,
      flip_start = Fin 0, flip_duration = Fin 330, flip_delay = Fin 0,
      flip_easing = JFunction (\<lambda>t. t),
      flip_updateTransform = True, flip_updateOpacity = True,
      flip_bound = raf_player\<rparr>"

text \<open>
  The specification's scenario A: an element measured at \<open>{0, 0, 100, 100}\<close> with opacity
  1, then at \<open>{50, 50, 200, 200}\<close> with opacity 0.5; the same helper after \<open>invert\<close>;
  and the helper whose first measurement found the element without a box.
\<close>

definition square :: "real \<Rightarrow> real \<Rightarrow> rect" where
  "square pos side =
     \<lparr>r_left = Fin pos, r_top = Fin pos, r_width = Fin side, r_height = Fin side\<rparr>"

definition scenario_A :: flip where
  "scenario_A =
     fresh_flip\<lparr>flip_first := \<lparr>layout = Some (square 0 100), opacity = Fin 1\<rparr>,
                flip_last := \<lparr>layout = Some (square 50 200), opacity = Fin (1 / 2)\<rparr>\<rparr>"

definition inverted_A :: flip where
  "inverted_A =
     scenario_A\<lparr>flip_invert := Some \<lparr>inv_x = Fin (- 50), inv_y = Fin (- 50),
                                       inv_sx = Fin (1 / 2), inv_sy = Fin (1 / 2),
                                       inv_a = Fin (- (1 / 2))\<rparr>\<rparr>"

definition hidden_first :: flip where
  "hidden_first = scenario_A\<lparr>flip_first := \<lparr>layout = Some (square 0 0), opacity = Fin 1\<rparr>\<rparr>"

text \<open>
  A configuration whose easing is the object \<open>{getRatio: 5}\<close>; a helper of duration 0
  whose animation starts at time 100.
\<close>

definition easing_object_opts :: options where
  "easing_object_opts = (only_element 0)\<lparr>opt_easing := Some (JObject (JNumber (Fin 5)))\<rparr>"

definition instant_flip :: flip where
  "instant_flip = fresh_flip\<lparr>flip_start := Fin 100, flip_duration := Fin 0\<rparr>"




section \<open>Basic facts\<close>

lemma typeof_undefined: "(typeof v = ''undefined'') = (v = JUndefined)"
  by (cases v) simp_all

lemma typeof_function: "(typeof v = ''function'') = is_function v"
  by (cases v) simp_all

text \<open>
  The two thresholds lie far outside \<open>[2^-53, 2^53]\<close>: a result of a magnitude in that
  interval, and zero, are kept as they are.
\<close>

lemma thresholds:
  "0 < underflow_threshold" "underflow_threshold < 1 / 2 ^ 53" "2 ^ 53 < overflow_threshold"
proof -
  show "0 < underflow_threshold" by (simp add: underflow_threshold_def)
  have "(2::real) ^ 53 < 2 ^ 1075" by (rule power_strict_increasing) simp_all
  then show "underflow_threshold < 1 / 2 ^ 53"
    by (simp add: underflow_threshold_def field_simps)
  have a: "(2::real) ^ 1024 = 2 ^ 970 * 2 ^ 54" by (simp add: power_add [symmetric])
  have b: "(2::real) ^ 53 \<le> 2 ^ 970" by (rule power_increasing) simp_all
  have "(2::real) ^ 970 * 2 ^ 54 - 2 ^ 970 = 2 ^ 970 * (2 ^ 54 - 1)" by (simp add: algebra_simps)
  moreover have "(2::real) ^ 970 * 1 < 2 ^ 970 * (2 ^ 54 - 1)"
    by (rule mult_strict_left_mono) simp_all
  ultimately show "2 ^ 53 < overflow_threshold"
    using a b by (simp add: overflow_threshold_def)
qed

lemma to_double_zero: "to_double 0 = Fin 0"
  using thresholds by (simp add: to_double_def)

lemma to_double_exact:
  "1 / 2 ^ 53 \<le> \<bar>r\<bar> \<Longrightarrow> \<bar>r\<bar> \<le> 2 ^ 53 \<Longrightarrow> to_double r = Fin r"
  using thresholds by (simp add: to_double_def)

lemma to_double_positive:
  assumes "0 < r"
  shows "not_negative (to_double r)"
    and "positive_finite (to_double r) = (underflow_threshold < r \<and> r < overflow_threshold)"
  using assms thresholds by (auto simp: to_double_def signed_inf_def)

text \<open>\<open>clamp_(value, 0, 1)\<close>, value by value.\<close>

lemma clamp_unit:
  "clamp (Fin r) (Fin 0) (Fin 1) = Fin (min 1 (max 0 r))"
  "clamp PInf (Fin 0) (Fin 1) = Fin 1"
  "clamp NInf (Fin 0) (Fin 1) = Fin 0"
  "clamp NaN (Fin 0) (Fin 1) = NaN"
  by (auto simp: clamp_def Math_min_def Math_max_def)

text \<open>The helper the sample configuration constructs.\<close>

lemma constructor_fresh: "constructor bundled (only_element 0) = Inr fresh_flip"
  by (simp add: constructor_def bundled_def extend_def no_registry_def only_element_def
      Object_assign_def defaults_def resolve_easing_def registry_get_def fresh_flip_def
      raf_player_def gsap_player_def Let_def)

text \<open>
  \<open>this.invert_\<close> is an object from the construction on: the constructor creates it, and no
  method replaces it by \<open>null\<close>.
\<close>

lemma constructor_invert_object: "constructor S opts = Inr f \<Longrightarrow> flip_invert f \<noteq> None"
  by (auto simp: constructor_def Let_def split: option.splits sum.splits)

lemma first_keeps_invert: "flip_invert (fst (first E f w)) = flip_invert f"
  by (simp add: first_def Let_def)

lemma last'_keeps_invert: "flip_invert (fst (state_of (last' E c f w))) = flip_invert f"
  by (simp add: last'_def Let_def split: outcome.splits)

lemma invert_keeps_object: "invert f w = Done (f', w') \<Longrightarrow> flip_invert f' \<noteq> None"
  by (auto simp: invert_def Let_def split: option.splits)

lemma cleanUpAndFireEvent_keeps_object:
  "flip_invert f \<noteq> None \<Longrightarrow> cleanUpAndFireEvent f w = Done (f', w') \<Longrightarrow> flip_invert f' \<noteq> None"
  by (auto simp: cleanUpAndFireEvent_def resetFirstLastAndInvertValues_def Let_def
      split: option.splits)

lemma raf_play_keeps_invert:
  "flip_invert (fst (state_of (raf_play now startTime f w))) = flip_invert f"
  by (simp add: raf_play_def Let_def split: option.splits)

lemma gsap_play_keeps_helper: "fst (state_of (gsap_play E now startTime f w)) = f"
  by (simp add: gsap_play_def global_def Let_def)

lemma raf_update_keeps_object:
  "flip_invert f \<noteq> None \<Longrightarrow> flip_invert (fst (state_of (raf_update now f w))) \<noteq> None"
  by (auto simp: raf_update_def cleanUpAndFireEvent_def resetFirstLastAndInvertValues_def
      Let_def split: option.splits jsval.splits)

lemma play_keeps_object:
  "flip_invert f \<noteq> None \<Longrightarrow> flip_invert (fst (state_of (play E now startTime f w))) \<noteq> None"
  using raf_update_keeps_object [of f now w] raf_play_keeps_invert [of now startTime f w]
    gsap_play_keeps_helper [of E now startTime f w]
  by (auto simp: play_def call_bound_def split: option.splits player_fn.splits)

section \<open>Invert\<close>

text \<open>
  C1. On a helper whose first and last snapshots are both set (and whose \<open>invert_\<close> is the
  object it is from construction on, whatever it holds), \<open>invert()\<close> returns, and the
  InvertDelta it leaves is exactly: x = first.left - last.left, y = first.top - last.top,
  sx = first.width / last.width, sy = first.height / last.height and
  a = last.opacity - first.opacity. The result is a function of the two snapshots alone:
  the previous InvertDelta \<open>old\<close> does not occur in it, and no other field of the helper
  changes.
\<close>

theorem invert_computes_delta:
  assumes "layout (flip_first f) = Some fl" and "layout (flip_last f) = Some ll"
    and "flip_invert f = Some old"
  shows "\<exists>w'. invert f w =
           Done (f\<lparr>flip_invert := Some
                    \<lparr>inv_x = jsub (r_left fl) (r_left ll),
                     inv_y = jsub (r_top fl) (r_top ll),
                     inv_sx = jdiv (r_width fl) (r_width ll),
                     inv_sy = jdiv (r_height fl) (r_height ll),
                     inv_a = jsub (opacity (flip_last f)) (opacity (flip_first f))\<rparr>\<rparr>, w')"
  using assms by (simp add: invert_def Let_def)

text \<open>
  Scenario A of the specification: translate (-50, -50), scale (0.5, 0.5), opacity
  delta -0.5.
\<close>

theorem invert_computes_delta_witness:
  "\<exists>w'. invert scenario_A blank_world =
           Done (scenario_A\<lparr>flip_invert := Some
                    \<lparr>inv_x = Fin (- 50), inv_y = Fin (- 50), inv_sx = Fin (1 / 2),
                     inv_sy = Fin (1 / 2), inv_a = Fin (- (1 / 2))\<rparr>\<rparr>, w')"
  using invert_computes_delta [of scenario_A "square 0 100" "square 50 200"
      "\<lparr>inv_x = Fin 0, inv_y = Fin 0, inv_sx = Fin 1, inv_sy = Fin 1, inv_a = Fin 0\<rparr>"
      blank_world]
  by (simp add: scenario_A_def fresh_flip_def square_def jsub_def to_double_exact)

text \<open>
  C3. On every helper, \<open>invert()\<close> throws when the first snapshot is missing, and throws
  when the first is set and the last is missing, each time with the error that names the
  missing call. The state at the throw is the state before the call: no InvertDelta was
  computed and no style was written.
\<close>

theorem invert_missing_snapshot_throws:
  "(layout (flip_first f) = None \<longrightarrow>
      invert f w = Thrown (Error ''You must call first() before invert()'') (f, w)) \<and>
   (layout (flip_first f) \<noteq> None \<and> layout (flip_last f) = None \<longrightarrow>
      invert f w = Thrown (Error ''You must call last() before invert()'') (f, w))"
  by (auto simp add: invert_def split: option.splits)

text \<open>
  Scenario C of the specification (\<open>invert()\<close> right after the construction), and the
  same helper after a \<open>first()\<close> alone.
\<close>

theorem invert_missing_snapshot_throws_witness:
  "invert fresh_flip blank_world =
     Thrown (Error ''You must call first() before invert()'') (fresh_flip, blank_world) \<and>
   invert (fresh_flip\<lparr>flip_first := \<lparr>layout = Some (square 0 100), opacity = Fin 1\<rparr>\<rparr>)
       blank_world =
     Thrown (Error ''You must call last() before invert()'')
       (fresh_flip\<lparr>flip_first := \<lparr>layout = Some (square 0 100), opacity = Fin 1\<rparr>\<rparr>,
        blank_world)"
  using invert_missing_snapshot_throws [of fresh_flip blank_world]
    invert_missing_snapshot_throws
      [of "fresh_flip\<lparr>flip_first := \<lparr>layout = Some (square 0 100), opacity = Fin 1\<rparr>\<rparr>"
        blank_world]
  by (simp add: fresh_flip_def)

text \<open>
  C9, as stated, fails: \<open>invert()\<close> accepts every pair of snapshots that are set and
  divides without a look at the sizes. An element that had no box at the first
  measurement (width and height 0) gives the scales 0 and 0, which are not strictly
  positive.
\<close>

theorem invert_zero_scale_counterexample:
  "map_option (\<lambda>(f, w). flip_invert f) (returned (invert hidden_first blank_world)) =
     Some (Some \<lparr>inv_x = Fin (- 50), inv_y = Fin (- 50), inv_sx = Fin 0, inv_sy = Fin 0,
                 inv_a = Fin (- (1 / 2))\<rparr>) \<and>
   \<not> positive_finite (Fin 0)"
  by (simp add: invert_def hidden_first_def scenario_A_def fresh_flip_def square_def jsub_def
      to_double_exact to_double_zero Let_def)

text \<open>
  Nor do sizes that are finite and strictly positive give scales that are finite and
  strictly positive: the division of two doubles overflows to Infinity (a width of
  \<open>2^1023\<close> over a width of \<open>0.25\<close>) and underflows to 0 (\<open>2^-1022\<close> over \<open>2^60\<close>).
\<close>

lemma jdiv_overflow_underflow:
  "jdiv (Fin (2 ^ 1023)) (Fin (1 / 4)) = PInf"
  "jdiv (Fin (1 / 2 ^ 1022)) (Fin (2 ^ 60)) = Fin 0"
  by (simp_all add: to_double_def overflow_threshold_def underflow_threshold_def signed_inf_def)

text \<open>
  C9, amended. Whenever \<open>invert()\<close> returns on snapshots whose widths and heights are all
  finite and strictly positive, the scales sx and sy it leaves are never NaN and never
  negative (each is a finite number that is at least 0, or Infinity), and each is finite
  and strictly positive exactly when the quotient of the two sizes lies strictly between
  \<open>2^-1075\<close> and \<open>2^1024 - 2^970\<close>, the bounds at which the division of doubles
  underflows to 0 and overflows to Infinity.
\<close>

theorem invert_scale_sign:
  assumes "invert f w = Done (f', w')"
    and "layout (flip_first f) = Some fl" and "layout (flip_last f) = Some ll"
    and "r_width fl = Fin fw" and "r_width ll = Fin lw"
    and "r_height fl = Fin fh" and "r_height ll = Fin lh"
    and "0 < fw" and "0 < lw" and "0 < fh" and "0 < lh"
  shows "\<exists>d. flip_invert f' = Some d \<and>
           not_negative (inv_sx d) \<and> not_negative (inv_sy d) \<and>
           positive_finite (inv_sx d) =
             (underflow_threshold < fw / lw \<and> fw / lw < overflow_threshold) \<and>
           positive_finite (inv_sy d) =
             (underflow_threshold < fh / lh \<and> fh / lh < overflow_threshold)"
proof -
  from assms(1-3) have d: "flip_invert f' =
      Some \<lparr>inv_x = jsub (r_left fl) (r_left ll), inv_y = jsub (r_top fl) (r_top ll),
            inv_sx = jdiv (r_width fl) (r_width ll), inv_sy = jdiv (r_height fl) (r_height ll),
            inv_a = jsub (opacity (flip_last f)) (opacity (flip_first f))\<rparr>"
    by (auto simp: invert_def Let_def split: option.splits)
  have x: "jdiv (r_width fl) (r_width ll) = to_double (fw / lw)" and "0 < fw / lw"
    using assms(4,5,8,9) by simp_all
  moreover have y: "jdiv (r_height fl) (r_height ll) = to_double (fh / lh)" and "0 < fh / lh"
    using assms(6,7,10,11) by simp_all
  ultimately show ?thesis
    using d to_double_positive [of "fw / lw"] to_double_positive [of "fh / lh"] by simp
qed

text \<open>Scenario A: both quotients are 0.5, and both scales are 0.5.\<close>

theorem invert_scale_sign_witness:
  "flip_invert inverted_A =
     Some \<lparr>inv_x = Fin (- 50), inv_y = Fin (- 50), inv_sx = Fin (1 / 2), inv_sy = Fin (1 / 2),
           inv_a = Fin (- (1 / 2))\<rparr> \<and>
   not_negative (Fin (1 / 2)) \<and> positive_finite (Fin (1 / 2)) \<and>
   underflow_threshold < 100 / 200 \<and> (100::real) / 200 < overflow_threshold"
proof -
  have r: "invert scenario_A blank_world =
      Done (inverted_A,
        update_style 0 (\<lambda>s. s\<lparr>style_willChange := Some ''transform,opacity''\<rparr>)
          (update_style 0 (\<lambda>s. s\<lparr>style_opacity := Some (Fin 1)\<rparr>)
            (update_style 0
               (\<lambda>s. s\<lparr>style_transformOrigin := Some ''0 0'',
                      style_transform :=
                        Some (TranslateScale (Fin (- 50)) (Fin (- 50)) (Fin (1 / 2)) (Fin (1 / 2)))\<rparr>)
               blank_world)))"
    by (simp add: invert_def inverted_A_def scenario_A_def fresh_flip_def square_def jsub_def
        to_double_exact Let_def)
  have "\<exists>d. flip_invert inverted_A = Some d \<and>
           not_negative (inv_sx d) \<and> not_negative (inv_sy d) \<and>
           positive_finite (inv_sx d) =
             (underflow_threshold < 100 / 200 \<and> 100 / 200 < overflow_threshold) \<and>
           positive_finite (inv_sy d) =
             (underflow_threshold < 100 / 200 \<and> 100 / 200 < overflow_threshold)"
    by (rule invert_scale_sign [OF r, of "square 0 100" "square 50 200" 100 200 100 200])
      (simp_all add: scenario_A_def fresh_flip_def square_def)
  then show ?thesis
    by (auto simp add: inverted_A_def)
qed

section \<open>Play\<close>

text \<open>
  C2. The claim is that \<open>play()\<close> fails on a helper on which \<open>invert()\<close> was never called.
  The guard of \<open>play\<close> compares \<open>this.invert_\<close> with \<open>null\<close>, but the constructor sets
  \<open>this.invert_\<close> to an object: on the helper that the sample configuration constructs,
  with no call of \<open>first\<close>, \<open>last\<close> or \<open>invert\<close>, \<open>play()\<close> does not throw. It calls the
  strategy's \<open>play_\<close>, which stores the start time and requests a frame.
\<close>

theorem play_without_invert_delegates:
  "constructor bundled (only_element 0) = Inr fresh_flip \<and>
   play E now None fresh_flip w =
     Done (fresh_flip\<lparr>flip_start := jadd now (Fin 0)\<rparr>,
           emit (RequestAnimationFrame (Some Raf_update)) w)"
  by (simp add: constructor_fresh play_def call_bound_def raf_play_def fresh_flip_def
      raf_player_def)

text \<open>
  More generally, on no helper whose \<open>invert_\<close> is an object does \<open>play\<close> throw the
  error of its first guard.
\<close>

lemma play_first_guard_dead:
  assumes "flip_invert f \<noteq> None"
  shows "play E now startTime f w \<noteq> Thrown (Error ''invert() must be called before play()'') s"
proof -
  have u: "raf_update now f w \<noteq> Thrown (Error ''invert() must be called before play()'') s"
    using assms
    by (auto simp: raf_update_def cleanUpAndFireEvent_def resetFirstLastAndInvertValues_def
        Let_def split: option.splits jsval.splits)
  have g: "gsap_play E now startTime f w \<noteq>
      Thrown (Error ''invert() must be called before play()'') s"
    by (auto simp: gsap_play_def global_def Let_def)
  have r: "raf_play now startTime f w \<noteq> Thrown (Error ''invert() must be called before play()'') s"
    by (simp add: raf_play_def Let_def)
  from assms u g r show ?thesis
    by (auto simp: play_def call_bound_def split: option.splits player_fn.splits)
qed

text \<open>
  C5. The claim is that the tween-engine strategy fails with its explicit error when
  neither engine is available. The source applies \<open>typeof\<close> to the string literals
  \<open>'TweenLite'\<close> and \<open>'TweenMax'\<close>, so both availability flags are always true, and the
  branch that throws the explicit error is never taken: where no global is declared,
  \<open>play_\<close> throws the ReferenceError of the read of \<open>TweenMax\<close>, before anything is written.
\<close>

theorem gsap_play_missing_engine:
  "gsap_play (E\<lparr>globals := []\<rparr>) now startTime f w =
     Thrown (ReferenceError ''TweenMax'') (f, w)"
  by (simp add: gsap_play_def global_def)

text \<open>In no environment does the strategy throw its explicit error.\<close>

lemma gsap_play_explicit_error_dead:
  "gsap_play E now startTime f w \<noteq>
     Thrown (Error ''GSAP requested, but TweenMax/Lite not available.'') s"
  by (auto simp: gsap_play_def global_def Let_def)

section \<open>The completion routine\<close>

text \<open>
  C4. On every helper (with \<open>invert_\<close> the object it is from construction on), the
  completion routine returns; afterwards the four inline styles transform-origin,
  transform, opacity and will-change of the element are cleared, both snapshots are
  \<open>{layout: null, opacity: 0}\<close>, the InvertDelta is \<open>{x: 0, y: 0, sx: 1, sy: 1, a: 0}\<close>,
  these three fields equal those of any helper just constructed, and one
  \<open>flipComplete\<close> event was dispatched on the element.
\<close>

theorem cleanUpAndFireEvent_resets:
  assumes "flip_invert f \<noteq> None"
  shows "\<exists>f' w'. cleanUpAndFireEvent f w = Done (f', w') \<and>
           style (elements w' (flip_element f)) =
             \<lparr>style_transformOrigin = None, style_transform = None,
              style_opacity = None, style_willChange = None\<rparr> \<and>
           flip_first f' = \<lparr>layout = None, opacity = Fin 0\<rparr> \<and>
           flip_last f' = \<lparr>layout = None, opacity = Fin 0\<rparr> \<and>
           flip_invert f' =
             Some \<lparr>inv_x = Fin 0, inv_y = Fin 0, inv_sx = Fin 1, inv_sy = Fin 1, inv_a = Fin 0\<rparr> \<and>
           (\<forall>S opts f0. constructor S opts = Inr f0 \<longrightarrow>
              flip_first f' = flip_first f0 \<and> flip_last f' = flip_last f0 \<and>
              flip_invert f' = flip_invert f0) \<and>
           trace w' = trace w @
             [DispatchEvent (flip_element f)
                \<lparr>ev_type = ''flipComplete'', ev_detail = JNull, ev_bubbles = True,
                 ev_cancelable = True\<rparr>]"
proof -
  from assms obtain d where d: "flip_invert f = Some d" by auto
  have c: "\<And>S opts f0. constructor S opts = Inr f0 \<Longrightarrow>
      flip_first f0 = \<lparr>layout = None, opacity = Fin 0\<rparr> \<and>
      flip_last f0 = \<lparr>layout = None, opacity = Fin 0\<rparr> \<and>
      flip_invert f0 =
        Some \<lparr>inv_x = Fin 0, inv_y = Fin 0, inv_sx = Fin 1, inv_sy = Fin 1, inv_a = Fin 0\<rparr>"
    by (auto simp: constructor_def Let_def split: option.splits sum.splits)
  show ?thesis
    using d c
    by (simp add: cleanUpAndFireEvent_def resetFirstLastAndInvertValues_def
        removeTransformsAndOpacity_def update_style_def fire_def emit_def Let_def)
qed

text \<open>The helper of scenario A, completed: it is back at the state of the fresh helper.\<close>

theorem cleanUpAndFireEvent_resets_witness:
  "\<exists>f' w'. cleanUpAndFireEvent scenario_A blank_world = Done (f', w') \<and>
           style (elements w' 0) = blank_style \<and>
           flip_first f' = flip_first fresh_flip \<and> flip_last f' = flip_last fresh_flip \<and>
           flip_invert f' = flip_invert fresh_flip \<and>
           trace w' =
             [DispatchEvent 0
                \<lparr>ev_type = ''flipComplete'', ev_detail = JNull, ev_bubbles = True,
                 ev_cancelable = True\<rparr>]"
proof -
  have h: "flip_invert scenario_A \<noteq> None"
    by (simp add: scenario_A_def fresh_flip_def)
  from cleanUpAndFireEvent_resets [OF h, of blank_world] constructor_fresh
  show ?thesis
    by (auto simp add: scenario_A_def fresh_flip_def blank_world_def blank_style_def)
qed

section \<open>The frame loop\<close>

text \<open>
  C8, as stated, fails: the normalized time of a frame is not always clamped into
  [0, 1]. \<open>Math.max\<close> and \<open>Math.min\<close> let NaN through, and the quotient
  (now - start) / duration is NaN, 0 / 0, on the frame at time 100 of a helper of
  duration 0 whose animation starts at time 100.
\<close>

theorem raf_update_not_clamped_counterexample:
  "raf_time (Fin 100) instant_flip = NaN \<and> \<not> in_unit_interval (raf_time (Fin 100) instant_flip)"
  by (simp add: raf_time_def instant_flip_def fresh_flip_def jsub_def clamp_def Math_max_def
      Math_min_def to_double_zero)

text \<open>
  C8, amended. On every frame of a helper whose easing is a function (and whose
  \<open>invert_\<close> is the object it is from construction on) and whose normalized time
  q = (now - start) / duration is not NaN, the time is clamped to [0, 1] before the
  easing: the easing is applied to the number t of [0, 1] that is q itself when q lies
  in [0, 1], 0 when q is below 0 and 1 when q is above 1. With easedTime the easing of
  t, the frame writes exactly
  x = invert.x * (1 - easedTime), y = invert.y * (1 - easedTime),
  sx = invert.sx + (1 - invert.sx) * easedTime, sy = invert.sy + (1 - invert.sy) * easedTime
  as the transform (when transforms are animated) and
  first.opacity + invert.a * easedTime as the opacity (when opacity is animated), then
  requests the next frame if t is below 1 and runs the completion routine if t is 1.
\<close>

theorem raf_update_frame:
  fixes f :: flip and now :: jsnum and w :: world and q :: jsnum
  assumes "flip_easing f = JFunction easing" and "flip_invert f = Some iv"
    and "jdiv (jsub now (flip_start f)) (flip_duration f) = q" and "q \<noteq> NaN"
  defines "t \<equiv> (case q of Fin r \<Rightarrow> min 1 (max 0 r) | PInf \<Rightarrow> 1 | NInf \<Rightarrow> 0 | NaN \<Rightarrow> 0)"
  defines "easedTime \<equiv> easing (Fin t)"
  defines "W \<equiv> w\<lparr>elements := (elements w)(flip_element f := (elements w (flip_element f))
      \<lparr>style := (style (elements w (flip_element f)))
         \<lparr>style_transform :=
            (if flip_updateTransform f
             then Some (TranslateScale
                    (jmul (inv_x iv) (jsub (Fin 1) easedTime))
                    (jmul (inv_y iv) (jsub (Fin 1) easedTime))
                    (jadd (inv_sx iv) (jmul (jsub (Fin 1) (inv_sx iv)) easedTime))
                    (jadd (inv_sy iv) (jmul (jsub (Fin 1) (inv_sy iv)) easedTime)))
             else style_transform (style (elements w (flip_element f)))),
          style_opacity :=
            (if flip_updateOpacity f
             then Some (jadd (opacity (flip_first f)) (jmul (inv_a iv) easedTime))
             else style_opacity (style (elements w (flip_element f))))\<rparr>\<rparr>)\<rparr>"
  shows "0 \<le> t \<and> t \<le> 1 \<and> raf_time now f = Fin t \<and>
         raf_update now f w =
           (if t < 1
            then Done (f, emit (RequestAnimationFrame (flip_bound f ''update_'')) W)
            else cleanUpAndFireEvent f W)"
proof (intro conjI)
  show "0 \<le> t" and "t \<le> 1"
    unfolding t_def by (cases q; simp)+
  show time: "raf_time now f = Fin t"
    using assms(3,4) unfolding t_def raf_time_def Let_def
    by (cases q) (simp_all add: clamp_unit)
  have W: "(if flip_updateOpacity f
            then update_style (flip_element f)
                   (\<lambda>s. s\<lparr>style_opacity :=
                            Some (jadd (opacity (flip_first f)) (jmul (inv_a iv) easedTime))\<rparr>)
            else (\<lambda>x. x))
           ((if flip_updateTransform f
             then update_style (flip_element f)
                    (\<lambda>s. s\<lparr>style_transform := Some (TranslateScale
                        (jmul (inv_x iv) (jsub (Fin 1) easedTime))
                        (jmul (inv_y iv) (jsub (Fin 1) easedTime))
                        (jadd (inv_sx iv) (jmul (jsub (Fin 1) (inv_sx iv)) easedTime))
                        (jadd (inv_sy iv) (jmul (jsub (Fin 1) (inv_sy iv)) easedTime)))\<rparr>)
             else (\<lambda>x. x)) w) = W"
    unfolding W_def by (simp add: update_style_def)
  show "raf_update now f w =
           (if t < 1
            then Done (f, emit (RequestAnimationFrame (flip_bound f ''update_'')) W)
            else cleanUpAndFireEvent f W)"
    using assms(1,2) W time
    by (auto simp add: raf_update_def Let_def easedTime_def)
qed

text \<open>
  Scenario A with the identity easing. Half way (time 165 of 330): translate (-25, -25),
  scale (0.75, 0.75), opacity 0.75, and one more frame requested. Past the end (time 400
  of 330): the time is clamped to 1, the identity transform and the last opacity are
  written, and the completion routine leaves the helper and the styles of the fresh
  helper and dispatches \<open>flipComplete\<close>.
\<close>

theorem raf_update_frame_witness:
  "raf_time (Fin 165) inverted_A = Fin (1 / 2) \<and>
   raf_update (Fin 165) inverted_A blank_world =
     Done (inverted_A,
           \<lparr>elements = (elements blank_world)(0 :=
               \<lparr>classList = [],
                style = blank_style
                  \<lparr>style_transform :=
                     Some (TranslateScale (Fin (- 25)) (Fin (- 25)) (Fin (3 / 4)) (Fin (3 / 4))),
                   style_opacity := Some (Fin (3 / 4))\<rparr>\<rparr>),
            trace = [RequestAnimationFrame (Some Raf_update)]\<rparr>) \<and>
   raf_time (Fin 400) inverted_A = Fin 1 \<and>
   raf_update (Fin 400) inverted_A blank_world =
     Done (fresh_flip,
           \<lparr>elements = (elements blank_world)(0 := \<lparr>classList = [], style = blank_style\<rparr>),
            trace = [DispatchEvent 0
                       \<lparr>ev_type = ''flipComplete'', ev_detail = JNull, ev_bubbles = True,
                        ev_cancelable = True\<rparr>]\<rparr>)"
proof -
  have q1: "jdiv (jsub (Fin 165) (flip_start inverted_A)) (flip_duration inverted_A) = Fin (1 / 2)"
    by (simp add: inverted_A_def scenario_A_def fresh_flip_def jsub_def to_double_exact)
  have q2: "jdiv (jsub (Fin 400) (flip_start inverted_A)) (flip_duration inverted_A) = Fin (40 / 33)"
    by (simp add: inverted_A_def scenario_A_def fresh_flip_def jsub_def to_double_exact)
  have e: "flip_easing inverted_A = JFunction (\<lambda>t. t)"
    by (simp add: inverted_A_def scenario_A_def fresh_flip_def)
  have i: "flip_invert inverted_A =
      Some \<lparr>inv_x = Fin (- 50), inv_y = Fin (- 50), inv_sx = Fin (1 / 2),
            inv_sy = Fin (1 / 2), inv_a = Fin (- (1 / 2))\<rparr>"
    by (simp add: inverted_A_def)
  from raf_update_frame [OF e i q1, of blank_world] raf_update_frame [OF e i q2, of blank_world]
  show ?thesis
    by (simp add: inverted_A_def scenario_A_def fresh_flip_def blank_world_def blank_style_def
        raf_player_def jsub_def to_double_exact to_double_zero emit_def
        cleanUpAndFireEvent_def removeTransformsAndOpacity_def
        resetFirstLastAndInvertValues_def update_style_def fire_def Let_def)
qed

section \<open>The constructor\<close>

text \<open>
  C7. The claim is that the construction throws for every easing that is neither a
  function nor an object with a \<open>getRatio\<close> function, and the comment of the source
  says the same (an object with a \<open>getRatio\<close> function is used, otherwise an error is
  thrown). The test of the source is only that \<open>getRatio\<close> is not \<open>undefined\<close>: with
  the easing \<open>{getRatio: 5}\<close>, which is neither, the construction succeeds, and the
  easing of the helper is the number 5.
\<close>

theorem constructor_accepts_getRatio_number:
  "\<not> is_function (configured_easing easing_object_opts) \<and>
   \<not> has_getRatio_function (configured_easing easing_object_opts) \<and>
   constructor bundled easing_object_opts = Inr (fresh_flip\<lparr>flip_easing := JNumber (Fin 5)\<rparr>)"
  by (simp add: configured_easing_def easing_object_opts_def only_element_def Object_assign_def
      defaults_def constructor_def resolve_easing_def registry_get_def bundled_def extend_def
      no_registry_def fresh_flip_def raf_player_def gsap_player_def Let_def)

text \<open>The first frame of that helper throws a TypeError: its easing cannot be called.\<close>

lemma raf_update_easing_number:
  "raf_update now (fresh_flip\<lparr>flip_easing := JNumber (Fin 5)\<rparr>) w =
     Thrown TypeError (fresh_flip\<lparr>flip_easing := JNumber (Fin 5)\<rparr>, w)"
  by (simp add: raf_update_def Let_def)

text \<open>
  Nor does every name without an entry in the registry make the construction throw: the
  name \<open>toString\<close>, never registered, is found in \<open>Object.prototype\<close>, and the
  construction returns a helper on which no function of a strategy is bound, so that
  its \<open>play()\<close> throws.
\<close>

lemma constructor_inherited_name:
  "lookup_player bundled ''toString'' = None"
  "constructor bundled ((only_element 0)\<lparr>opt_play := Some ''toString''\<rparr>) =
     Inr (fresh_flip\<lparr>flip_bound := Map.empty\<rparr>)"
  "play E now startTime (fresh_flip\<lparr>flip_bound := Map.empty\<rparr>) w =
     Thrown (Error ''No player specified.'') (fresh_flip\<lparr>flip_bound := Map.empty\<rparr>, w)"
  by (simp_all add: lookup_player_def only_element_def Object_assign_def
      defaults_def constructor_def resolve_easing_def registry_get_def Object_prototype_names_def
      bundled_def extend_def no_registry_def fresh_flip_def raf_player_def gsap_player_def
      play_def Let_def)

text \<open>
  What the constructor does throw: without an element; with an element and an easing
  that is not a function and has no defined \<open>getRatio\<close>; with both accepted, when no
  registry exists, and when the name is neither a key of the registry nor inherited.
\<close>

lemma resolve_easing_rejects:
  "\<not> is_function easing \<Longrightarrow> \<not> getRatio_defined easing \<Longrightarrow>
   resolve_easing easing =
     Inl (if easing = JUndefined \<or> easing = JNull then TypeError
          else Error ''Easing function must be provided.'')"
  by (cases easing) (auto simp: resolve_easing_def typeof_undefined)

lemma resolve_easing_accepts:
  "is_function easing \<or> getRatio_defined easing \<Longrightarrow> \<exists>g. resolve_easing easing = Inr g"
  by (cases easing) (auto simp: resolve_easing_def typeof_undefined)

lemma constructor_throws:
  "(opt_element opts = None \<longrightarrow>
      constructor S opts = Inl (Error ''Element must be provided.'')) \<and>
   (opt_element opts \<noteq> None \<and> \<not> is_function (configured_easing opts) \<and>
    \<not> getRatio_defined (configured_easing opts) \<longrightarrow>
      constructor S opts =
        Inl (if configured_easing opts = JUndefined \<or> configured_easing opts = JNull
             then TypeError else Error ''Easing function must be provided.'')) \<and>
   (opt_element opts \<noteq> None \<and>
    (is_function (configured_easing opts) \<or> getRatio_defined (configured_easing opts)) \<and>
    players S = None \<longrightarrow> constructor S opts = Inl TypeError) \<and>
   (opt_element opts \<noteq> None \<and>
    (is_function (configured_easing opts) \<or> getRatio_defined (configured_easing opts)) \<and>
    players S = Some ps \<and> ps (configured_play opts) = None \<and>
    configured_play opts \<notin> set Object_prototype_names \<longrightarrow>
      constructor S opts = Inl (Error (''Unknown player type: '' @ configured_play opts)))"
proof (intro conjI impI)
  assume "opt_element opts = None"
  then show "constructor S opts = Inl (Error ''Element must be provided.'')"
    by (simp add: constructor_def Object_assign_def defaults_def)
next
  assume a: "opt_element opts \<noteq> None \<and> \<not> is_function (configured_easing opts) \<and>
    \<not> getRatio_defined (configured_easing opts)"
  then obtain el where el: "cfg_element (Object_assign defaults opts) = Some el"
    by (auto simp: Object_assign_def)
  from a have "resolve_easing (cfg_easing (Object_assign defaults opts)) =
     Inl (if configured_easing opts = JUndefined \<or> configured_easing opts = JNull then TypeError
          else Error ''Easing function must be provided.'')"
    using resolve_easing_rejects [of "configured_easing opts"]
    by (simp add: configured_easing_def)
  with el show "constructor S opts =
        Inl (if configured_easing opts = JUndefined \<or> configured_easing opts = JNull
             then TypeError else Error ''Easing function must be provided.'')"
    by (simp add: constructor_def Let_def)
next
  assume a: "opt_element opts \<noteq> None \<and>
    (is_function (configured_easing opts) \<or> getRatio_defined (configured_easing opts)) \<and>
    players S = None"
  then obtain el where el: "cfg_element (Object_assign defaults opts) = Some el"
    by (auto simp: Object_assign_def)
  from a obtain g where g: "resolve_easing (cfg_easing (Object_assign defaults opts)) = Inr g"
    using resolve_easing_accepts [of "configured_easing opts"]
    by (auto simp: configured_easing_def)
  from a el g show "constructor S opts = Inl TypeError"
    by (simp add: constructor_def Let_def)
next
  assume a: "opt_element opts \<noteq> None \<and>
    (is_function (configured_easing opts) \<or> getRatio_defined (configured_easing opts)) \<and>
    players S = Some ps \<and> ps (configured_play opts) = None \<and>
    configured_play opts \<notin> set Object_prototype_names"
  then obtain el where el: "cfg_element (Object_assign defaults opts) = Some el"
    by (auto simp: Object_assign_def)
  from a obtain g where g: "resolve_easing (cfg_easing (Object_assign defaults opts)) = Inr g"
    using resolve_easing_accepts [of "configured_easing opts"]
    by (auto simp: configured_easing_def)
  from a el g
  show "constructor S opts = Inl (Error (''Unknown player type: '' @ configured_play opts))"
    by (simp add: constructor_def registry_get_def configured_play_def Let_def)
qed

text \<open>Scenario B of the specification: the unregistered name \<open>bogus\<close>.\<close>

lemma constructor_bogus:
  "constructor bundled ((only_element 0)\<lparr>opt_play := Some ''bogus''\<rparr>) =
     Inl (Error ''Unknown player type: bogus'')"
  by (simp add: only_element_def Object_assign_def defaults_def constructor_def
      resolve_easing_def registry_get_def Object_prototype_names_def bundled_def extend_def
      no_registry_def raf_player_def gsap_player_def Let_def)

section \<open>The registry\<close>

lemma lookup_extend:
  "lookup_player (extend n p S) name = (if n = name then Some p else lookup_player S name)"
  by (simp add: lookup_player_def extend_def Let_def split: option.splits)

lemma lookup_step_Construct:
  "lookup_player (registry_step (Construct opts) S) name = lookup_player S name"
  by (simp split: sum.splits)

lemma lookup_registry_run:
  "lookup_player (registry_run ops S) name =
     (case last_registration name ops of Some q \<Rightarrow> Some q | None \<Rightarrow> lookup_player S name)"
proof (induction ops arbitrary: S)
  case Nil
  then show ?case by simp
next
  case (Cons x xs)
  show ?case
  proof (cases x)
    case (Extend n p)
    then show ?thesis
      by (simp add: Cons.IH lookup_extend split: option.splits)
  next
    case (Construct opts)
    then show ?thesis
      using Cons.IH [of "registry_step (Construct opts) S"]
      by (simp only: registry_run.simps last_registration.simps lookup_step_Construct)
  qed
qed

text \<open>
  C10. A registration under a name, registered before or not, makes the lookup of that
  name give the strategy just registered; after any sequence of registrations and
  constructions the lookup of a name gives the strategy of the latest registration of
  that name in the sequence, or what it gave before the sequence if there is none; so a
  name that is registered stays registered.
\<close>

theorem registry_last_registration_wins:
  "lookup_player (extend name p S) name = Some p \<and>
   lookup_player (registry_run ops S) name =
     (case last_registration name ops of Some q \<Rightarrow> Some q | None \<Rightarrow> lookup_player S name) \<and>
   (lookup_player S name \<noteq> None \<longrightarrow> lookup_player (registry_run ops S) name \<noteq> None)"
  by (auto simp add: lookup_extend lookup_registry_run split: option.splits)

text \<open>
  The name \<open>rAF\<close>, registered with the frame-loop strategy, is registered again with
  the tween strategy, then a helper is constructed and another name is registered.
\<close>

theorem registry_last_registration_wins_witness:
  "lookup_player (extend ''rAF'' gsap_player bundled) ''rAF'' = Some gsap_player \<and>
   lookup_player bundled ''rAF'' = Some raf_player \<and>
   lookup_player
     (registry_run
        [Extend ''rAF'' gsap_player, Construct (only_element 0), Extend ''CSS'' Map.empty]
        bundled) ''rAF'' = Some gsap_player"
  using registry_last_registration_wins [of "''rAF''" gsap_player bundled
      "[Extend ''rAF'' gsap_player, Construct (only_element 0), Extend ''CSS'' Map.empty]"]
  by (simp add: lookup_player_def bundled_def extend_def no_registry_def Let_def)

text \<open>
  A strategy that is registered is what the constructor finds, and the first registration
  of a name that \<open>Object.prototype\<close> has is warned about as a duplicate.
\<close>

lemma registry_get_registered:
  "lookup_player S name = Some p \<Longrightarrow> \<exists>ps. players S = Some ps \<and> registry_get ps name = Some p"
  by (auto simp: lookup_player_def registry_get_def split: option.splits)

lemma extend_inherited_name_warns:
  "console (extend ''toString'' gsap_player no_registry) =
     [''Player with name toString already exists'']"
  by (simp add: extend_def no_registry_def registry_get_def Object_prototype_names_def
      gsap_player_def Let_def)

section \<open>Groups\<close>















end
